theory Spec2Isabelle
  imports Complex_Main
begin

section \<open>JavaScript values used by \<open>src/app/page.tsx\<close>\<close>

text \<open>
  A TypeScript \<open>number\<close> is an IEEE double. The page only compares the compliance score
  with the constants 80 and 50, and a comparison of doubles is the comparison of the
  numbers they denote, so a finite number is modelled by its real value; the three
  non-finite doubles are kept as constructors of their own.
\<close>

datatype number = NaN | NegInfinity | Finite real | Infinity

text \<open>The operators \<open>a > b\<close> and \<open>a >= b\<close>: any comparison with \<open>NaN\<close> is false.\<close>

fun js_gt :: "number \<Rightarrow> number \<Rightarrow> bool" where
  "js_gt NaN b = False"
| "js_gt a NaN = False"
| "js_gt (Finite x) (Finite y) = (y < x)"
| "js_gt Infinity Infinity = False"
| "js_gt Infinity b = True"
| "js_gt a Infinity = False"
| "js_gt NegInfinity b = False"
| "js_gt (Finite x) NegInfinity = True"

fun js_ge :: "number \<Rightarrow> number \<Rightarrow> bool" where
  "js_ge NaN b = False"
| "js_ge a NaN = False"
| "js_ge (Finite x) (Finite y) = (y \<le> x)"
| "js_ge Infinity b = True"
| "js_ge NegInfinity NegInfinity = True"
| "js_ge a Infinity = False"
| "js_ge NegInfinity b = False"
| "js_ge (Finite x) NegInfinity = True"

text \<open>
  A string is a list of characters. A \<open>char\<close> stands for a UTF-16 code unit below 256,
  which covers every string literal of the page.
\<close>

text \<open>
  The agent's payload has the static type \<open>unknown\<close>: any JSON-like value. An object is
  the list of its own properties in insertion order.
\<close>

datatype jsval =
    JUndefined
  | JNull
  | JBool bool
  | JNum number
  | JStr string
  | JArr "jsval list"
  | JObj "(string \<times> jsval) list"

text \<open>ToBoolean, as applied by \<open>!\<close>, \<open>&&\<close>, \<open>||\<close> and \<open>if\<close>.\<close>

fun truthy :: "jsval \<Rightarrow> bool" where
  "truthy JUndefined = False"
| "truthy JNull = False"
| "truthy (JBool b) = b"
| "truthy (JNum n) = (n \<noteq> NaN \<and> n \<noteq> Finite 0)"
| "truthy (JStr s) = (s \<noteq> [])"
| "truthy (JArr xs) = True"
| "truthy (JObj kvs) = True"

text \<open>
  \<open>String.prototype.trim\<close> removes white space and line terminators from both ends. Among
  the code units below 256 these are TAB, LF, VT, FF, CR, SPACE and NO-BREAK SPACE.
\<close>

definition is_white_space :: "char \<Rightarrow> bool" where
  "is_white_space c = (of_char c \<in> {9, 10, 11, 12, 13, 32, 160 :: nat})"

definition trim :: "string \<Rightarrow> string" where
  "trim s = rev (dropWhile is_white_space (rev (dropWhile is_white_space s)))"

section \<open>Classification taxonomy (\<open>AuditorView\<close>)\<close>

text \<open>
  \<^verbatim>\<open>
  const getScoreColor = (score: number) => {
    if (score > 80) return 'bg-green-500'
    if (score >= 50) return 'bg-yellow-500'
    return 'bg-red-500'
  }
  \<close>
\<close>

definition getScoreColor :: "number \<Rightarrow> string" where
  "getScoreColor score =
     (if js_gt score (Finite 80) then ''bg-green-500''
      else if js_ge score (Finite 50) then ''bg-yellow-500''
      else ''bg-red-500'')"

text \<open>
  \<^verbatim>\<open>
  const getScoreTextColor = (score: number) => {
    if (score > 80) return 'text-green-900'
    if (score >= 50) return 'text-yellow-900'
    return 'text-red-900'
  }
  \<close>
\<close>

definition getScoreTextColor :: "number \<Rightarrow> string" where
  "getScoreTextColor score =
     (if js_gt score (Finite 80) then ''text-green-900''
      else if js_ge score (Finite 50) then ''text-yellow-900''
      else ''text-red-900'')"

text \<open>
  \<^verbatim>\<open>
  const getRiskBadgeColor = (riskLevel: string) => {
    switch (riskLevel) {
      case 'safe': return 'bg-green-100 text-green-800 border-green-200'
      case 'warning': return 'bg-yellow-100 text-yellow-800 border-yellow-200'
      case 'danger': return 'bg-red-100 text-red-800 border-red-200'
      default: return 'bg-slate-100 text-slate-800 border-slate-200'
    }
  }
  \<close>
\<close>

definition getRiskBadgeColor :: "string \<Rightarrow> string" where
  "getRiskBadgeColor riskLevel =
     (if riskLevel = ''safe'' then ''bg-green-100 text-green-800 border-green-200''
      else if riskLevel = ''warning'' then ''bg-yellow-100 text-yellow-800 border-yellow-200''
      else if riskLevel = ''danger'' then ''bg-red-100 text-red-800 border-red-200''
      else ''bg-slate-100 text-slate-800 border-slate-200'')"

text \<open>
  \<open>getStatusIcon\<close> returns one of three icon elements of \<open>lucide-react\<close>, each with a
  fixed class name, or \<open>null\<close>. An element is the pair of its component and its class
  name; \<open>null\<close> is \<open>None\<close>.
  \<^verbatim>\<open>
  const getStatusIcon = (status: string) => {
    switch (status) {
      case 'VERIFIED': return <CheckCircle className="h-5 w-5 text-green-600" />
      case 'UNKNOWN': return <AlertTriangle className="h-5 w-5 text-yellow-600" />
      case 'CONTRADICTION': return <XCircle className="h-5 w-5 text-red-600" />
      default: return null
    }
  }
  \<close>
\<close>

datatype icon = CheckCircle | AlertTriangle | XCircle

definition getStatusIcon :: "string \<Rightarrow> (icon \<times> string) option" where
  "getStatusIcon status =
     (if status = ''VERIFIED'' then Some (CheckCircle, ''h-5 w-5 text-green-600'')
      else if status = ''UNKNOWN'' then Some (AlertTriangle, ''h-5 w-5 text-yellow-600'')
      else if status = ''CONTRADICTION'' then Some (XCircle, ''h-5 w-5 text-red-600'')
      else None)"

text \<open>
  The container of one analysed sentence takes its colour classes from an inline
  conditional on \<open>item.risk_level\<close>, inside \<open>response.analysis.map\<close>:
  \<^verbatim>\<open>
  item.risk_level === 'safe' ? 'bg-green-50 border-green-200' :
  item.risk_level === 'warning' ? 'bg-yellow-50 border-yellow-200' :
  'bg-red-50 border-red-200'
  \<close>
\<close>

definition analysis_container_class :: "string \<Rightarrow> string" where
  "analysis_container_class risk_level =
     (if risk_level = ''safe'' then ''bg-green-50 border-green-200''
      else if risk_level = ''warning'' then ''bg-yellow-50 border-yellow-200''
      else ''bg-red-50 border-red-200'')"

section \<open>Agent transport and effects\<close>

text \<open>
  \<open>callAIAgent\<close> is imported from \<open>@/lib/aiAgent\<close>. The page awaits its promise and reads
  three properties of the value it resolves to: \<open>result.success\<close>, \<open>result.response\<close> and
  \<open>result.error\<close> (a flag, an optional payload of type \<open>unknown\<close>, an optional message).
  An absent payload is \<open>JUndefined\<close>, an absent message is \<open>None\<close>.
\<close>

record agent_result =
  result_success :: bool
  result_response :: jsval
  result_error :: "string option"

text \<open>
  What a \<open>catch\<close> clause can receive: an instance of \<open>Error\<close> with its \<open>message\<close>, or any
  other thrown value.
\<close>

datatype thrown = Error_instance string | Non_Error

text \<open>
  The awaited promise either resolves to a result or rejects, which throws at the
  \<open>await\<close>. The handlers below take this outcome as their parameter.
\<close>

datatype outcome = Resolved agent_result | Rejected thrown

text \<open>What \<open>console.error(label, value)\<close> is given as its second argument.\<close>

datatype logged = Logged_message "string option" | Logged_thrown thrown

text \<open>
  The effects of a handler outside the component's state: a call of
  \<open>callAIAgent(message, agent_id)\<close>, a \<open>console.error\<close>, a \<open>setTimeout\<close> with its delay in
  milliseconds.
\<close>

datatype effect =
    CallAIAgent string string
  | ConsoleError string logged
  | SetTimeout nat

text \<open>
  An \<open>async\<close> handler runs synchronously up to its first \<open>await\<close>. It has then either
  returned already, or it is suspended on the effect it awaits; in both cases with the
  component state its setters have produced so far.
\<close>

datatype 'st suspended = Returned 'st | Awaiting 'st effect

definition BID_GENERATOR_AGENT_ID :: string where
  "BID_GENERATOR_AGENT_ID = ''6985a6533b50e9c8d7d7e939''"

definition COMPLIANCE_AUDITOR_AGENT_ID :: string where
  "COMPLIANCE_AUDITOR_AGENT_ID = ''6985a66c3b50e9c8d7d7e93e''"

text \<open>
  A read \<open>v.k\<close> of a property that no prototype supplies, on a value other than
  \<open>undefined\<close> and \<open>null\<close>: an object gives its own property or \<open>undefined\<close>; booleans,
  numbers, strings and arrays have no own property of the names read here.
\<close>

definition own_property :: "jsval \<Rightarrow> string \<Rightarrow> jsval" where
  "own_property v k =
     (case v of
        JObj kvs \<Rightarrow> (case map_of kvs k of Some x \<Rightarrow> x | None \<Rightarrow> JUndefined)
      | _ \<Rightarrow> JUndefined)"

text \<open>
  The read \<open>agentResponse.result\<close>, after the cast
  \<open>result.response as unknown as BidGeneratorResponse\<close>, which checks nothing at run time.
  On \<open>undefined\<close> and \<open>null\<close> a property read throws a \<open>TypeError\<close> (the message is V8's).
\<close>

definition read_result :: "jsval \<Rightarrow> thrown + jsval" where
  "read_result v =
     (case v of
        JUndefined \<Rightarrow>
          Inl (Error_instance ''Cannot read properties of undefined (reading 'result')'')
      | JNull \<Rightarrow> Inl (Error_instance ''Cannot read properties of null (reading 'result')'')
      | _ \<Rightarrow> Inr (own_property v ''result''))"

text \<open>
  The claims' "the transport call fails": the success flag is false, or the call throws.
\<close>

definition transport_failed :: "outcome \<Rightarrow> bool" where
  "transport_failed out =
     (case out of Rejected e \<Rightarrow> True | Resolved result \<Rightarrow> \<not> result_success result)"

text \<open>\<open>a || b\<close> for an optional string \<open>a\<close>: \<open>undefined\<close> and the empty string are falsy.\<close>

definition or_else :: "string option \<Rightarrow> string \<Rightarrow> string" where
  "or_else a b = (case a of None \<Rightarrow> b | Some s \<Rightarrow> if s = [] then b else s)"

section \<open>Generation controller (\<open>GeneratorView\<close>)\<close>

text \<open>
  Both views keep \<open>loading\<close> and \<open>response\<close> with \<open>useState\<close>; \<open>response\<close> starts as
  \<open>null\<close> and, since the payload is stored unchecked, can hold any value.
\<close>

record view_state =
  loading :: bool
  response :: jsval

record GeneratorView = view_state +
  question :: string
  copied :: bool

text \<open>
  The object literal that both failure branches of \<open>handleGenerate\<close> store:
  \<^verbatim>\<open>{ answer: '', status: 'missing_info', citations: [], warning: ... }\<close>
\<close>

definition missing_info_result :: "string \<Rightarrow> jsval" where
  "missing_info_result warning =
     JObj [(''answer'', JStr []), (''status'', JStr ''missing_info''),
           (''citations'', JArr []), (''warning'', JStr warning)]"

text \<open>
  \<^verbatim>\<open>
  const handleGenerate = async () => {
    if (!question.trim()) return
    setLoading(true)
    setResponse(null)
    try {
      const result = await callAIAgent(question, BID_GENERATOR_AGENT_ID)
      if (result.success && result.response) {
        const agentResponse = result.response as unknown as BidGeneratorResponse
        setResponse(agentResponse.result)
      } else {
        setResponse({ answer: '', status: 'missing_info', citations: [],
          warning: result.error || 'Failed to generate answer' })
      }
    } catch (error) {
      setResponse({ answer: '', status: 'missing_info', citations: [],
        warning: error instanceof Error ? error.message : 'Network error' })
    } finally {
      setLoading(false)
    }
  }
  \<close>
  The handler runs in two parts, cut at the \<open>await\<close>. \<open>handleGenerate_start\<close> is the part
  before it: the early return, or the state while the request is in flight and the call
  awaited.
\<close>

definition handleGenerate_start :: "GeneratorView \<Rightarrow> GeneratorView suspended" where
  "handleGenerate_start st =
     (if trim (question st) = [] then Returned st
      else Awaiting (st\<lparr>loading := True, response := JNull\<rparr>)
                    (CallAIAgent (question st) BID_GENERATOR_AGENT_ID))"

text \<open>The body of \<open>try\<close> from the \<open>await\<close> on: the value given to \<open>setResponse\<close>, or a throw.\<close>

definition generate_try :: "outcome \<Rightarrow> thrown + jsval" where
  "generate_try out =
     (case out of
        Rejected e \<Rightarrow> Inl e
      | Resolved result \<Rightarrow>
          if result_success result \<and> truthy (result_response result)
          then read_result (result_response result)
          else Inr (missing_info_result
                      (or_else (result_error result) ''Failed to generate answer'')))"

text \<open>The \<open>catch\<close> clause: the value given to \<open>setResponse\<close>.\<close>

definition generate_catch :: "thrown \<Rightarrow> jsval" where
  "generate_catch e =
     missing_info_result
       (case e of Error_instance message \<Rightarrow> message | Non_Error \<Rightarrow> ''Network error'')"

text \<open>The part after the \<open>await\<close>: \<open>try\<close>, \<open>catch\<close>, then \<open>finally\<close>.\<close>

definition handleGenerate_settle :: "outcome \<Rightarrow> GeneratorView \<Rightarrow> GeneratorView" where
  "handleGenerate_settle out st =
     (let v = (case generate_try out of Inr v \<Rightarrow> v | Inl e \<Rightarrow> generate_catch e)
      in st\<lparr>response := v, loading := False\<rparr>)"

text \<open>
  One whole run of the handler, given the outcome of its request: the final state and the
  effects, in order.
\<close>

definition handleGenerate :: "outcome \<Rightarrow> GeneratorView \<Rightarrow> GeneratorView \<times> effect list" where
  "handleGenerate out st =
     (case handleGenerate_start st of
        Returned st' \<Rightarrow> (st', [])
      | Awaiting st' call \<Rightarrow> (handleGenerate_settle out st', [call]))"

text \<open>The submit button of the view: \<open>disabled={loading || !question.trim()}\<close>.\<close>

definition generate_disabled :: "GeneratorView \<Rightarrow> bool" where
  "generate_disabled st = (loading st \<or> trim (question st) = [])"

text \<open>
  Following the specification's words (section 4.2, Response Validator), not the source,
  which has no such check: a payload passes the Generation required-field checks when
  \<open>result.answer\<close> is a string, \<open>result.status\<close> is one of the two enumerated values and
  \<open>result.citations\<close> is an array.
\<close>

definition spec_generation_fields_ok :: "jsval \<Rightarrow> bool" where
  "spec_generation_fields_ok payload =
     (let r = own_property payload ''result'' in
        (case own_property r ''answer'' of JStr a \<Rightarrow> True | _ \<Rightarrow> False) \<and>
        (own_property r ''status'' = JStr ''success'' \<or>
         own_property r ''status'' = JStr ''missing_info'') \<and>
        (case own_property r ''citations'' of JArr cs \<Rightarrow> True | _ \<Rightarrow> False))"

section \<open>Audit controller (\<open>AuditorView\<close>)\<close>

record AuditorView = view_state +
  draft :: string

text \<open>
  \<^verbatim>\<open>
  const handleAudit = async () => {
    if (!draft.trim()) return
    setLoading(true)
    setResponse(null)
    try {
      const result = await callAIAgent(draft, COMPLIANCE_AUDITOR_AGENT_ID)
      if (result.success && result.response) {
        const agentResponse = result.response as unknown as ComplianceAuditorResponse
        setResponse(agentResponse.result)
      } else {
        console.error('Audit failed:', result.error)
      }
    } catch (error) {
      console.error('Audit error:', error)
    } finally {
      setLoading(false)
    }
  }
  \<close>
\<close>

definition handleAudit_start :: "AuditorView \<Rightarrow> AuditorView suspended" where
  "handleAudit_start st =
     (if trim (draft st) = [] then Returned st
      else Awaiting (st\<lparr>loading := True, response := JNull\<rparr>)
                    (CallAIAgent (draft st) COMPLIANCE_AUDITOR_AGENT_ID))"

text \<open>
  The body of \<open>try\<close> from the \<open>await\<close> on: a throw, or the state and what was logged.
\<close>

definition audit_try :: "outcome \<Rightarrow> AuditorView \<Rightarrow> thrown + (AuditorView \<times> effect list)" where
  "audit_try out st =
     (case out of
        Rejected e \<Rightarrow> Inl e
      | Resolved result \<Rightarrow>
          if result_success result \<and> truthy (result_response result)
          then (case read_result (result_response result) of
                  Inl e \<Rightarrow> Inl e
                | Inr v \<Rightarrow> Inr (st\<lparr>response := v\<rparr>, []))
          else Inr (st, [ConsoleError ''Audit failed:'' (Logged_message (result_error result))]))"

definition handleAudit_settle :: "outcome \<Rightarrow> AuditorView \<Rightarrow> AuditorView \<times> effect list" where
  "handleAudit_settle out st =
     (let (st', logs) =
            (case audit_try out st of
               Inr r \<Rightarrow> r
             | Inl e \<Rightarrow> (st, [ConsoleError ''Audit error:'' (Logged_thrown e)]))
      in (st'\<lparr>loading := False\<rparr>, logs))"

definition handleAudit :: "outcome \<Rightarrow> AuditorView \<Rightarrow> AuditorView \<times> effect list" where
  "handleAudit out st =
     (case handleAudit_start st of
        Returned st' \<Rightarrow> (st', [])
      | Awaiting st' call \<Rightarrow>
          (let (st'', logs) = handleAudit_settle out st' in (st'', call # logs)))"

section \<open>Vault content manager (\<open>VaultView\<close>)\<close>

record VaultView =
  vaultContent :: string
  saving :: bool
  saveMessage :: string

text \<open>
  \<^verbatim>\<open>
  const handleSave = async () => {
    if (!vaultContent.trim()) {
      setSaveMessage('Please enter content to save')
      return
    }
    setSaving(true)
    setSaveMessage('')
    await new Promise(resolve => setTimeout(resolve, 1000))
    setSaving(false)
    setSaveMessage('Knowledge Vault content saved and indexed successfully!')
    setTimeout(() => setSaveMessage(''), 5000)
  }
  \<close>
  \<open>handleSave_start\<close> runs up to the \<open>await\<close> (or to the early \<open>return\<close>),
  \<open>handleSave_resume\<close> from the \<open>await\<close> to the end, \<open>handleSave_timeout\<close> is the callback
  of the last timer. \<open>handleSave\<close> is one whole run of the handler.
\<close>

definition handleSave_start :: "VaultView \<Rightarrow> VaultView suspended" where
  "handleSave_start st =
     (if trim (vaultContent st) = []
      then Returned (st\<lparr>saveMessage := ''Please enter content to save''\<rparr>)
      else Awaiting (st\<lparr>saving := True, saveMessage := []\<rparr>) (SetTimeout 1000))"

definition handleSave_resume :: "VaultView \<Rightarrow> VaultView \<times> effect list" where
  "handleSave_resume st =
     (st\<lparr>saving := False,
         saveMessage := ''Knowledge Vault content saved and indexed successfully!''\<rparr>,
      [SetTimeout 5000])"

definition handleSave_timeout :: "VaultView \<Rightarrow> VaultView" where
  "handleSave_timeout st = st\<lparr>saveMessage := []\<rparr>"

definition handleSave :: "VaultView \<Rightarrow> VaultView \<times> effect list" where
  "handleSave st =
     (case handleSave_start st of
        Returned st' \<Rightarrow> (st', [])
      | Awaiting st' timer \<Rightarrow>
          (let (st'', effects) = handleSave_resume st' in (st'', timer # effects)))"

section \<open>Score banding\<close>

text \<open>
  Claim C1. The band of a compliance score is a function of the score alone, and the three
  bands partition the finite scores: the green ("good") classes are returned exactly for
  \<open>score > 80\<close>, the yellow ("moderate") classes exactly for \<open>50 \<le> score \<le> 80\<close>, the red
  ("poor") classes exactly for \<open>score < 50\<close>; both colour functions agree on the band. So
  80 itself is moderate, and every score of \<open>[0,100]\<close> has exactly one band.
\<close>

theorem score_banding:
  "(getScoreColor (Finite x) = ''bg-green-500'' \<longleftrightarrow> 80 < x) \<and>
   (getScoreColor (Finite x) = ''bg-yellow-500'' \<longleftrightarrow> 50 \<le> x \<and> x \<le> 80) \<and>
   (getScoreColor (Finite x) = ''bg-red-500'' \<longleftrightarrow> x < 50) \<and>
   (getScoreTextColor (Finite x) = ''text-green-900'' \<longleftrightarrow> 80 < x) \<and>
   (getScoreTextColor (Finite x) = ''text-yellow-900'' \<longleftrightarrow> 50 \<le> x \<and> x \<le> 80) \<and>
   (getScoreTextColor (Finite x) = ''text-red-900'' \<longleftrightarrow> x < 50)"
  by (simp add: getScoreColor_def getScoreTextColor_def not_less not_le)

text \<open>The four boundary values: 81 is good, 80 and 50 are moderate, 49 is poor.\<close>

theorem score_banding_witness:
  "getScoreColor (Finite 81) = ''bg-green-500'' \<and> getScoreTextColor (Finite 81) = ''text-green-900'' \<and>
   getScoreColor (Finite 80) = ''bg-yellow-500'' \<and> getScoreTextColor (Finite 80) = ''text-yellow-900'' \<and>
   getScoreColor (Finite 50) = ''bg-yellow-500'' \<and> getScoreTextColor (Finite 50) = ''text-yellow-900'' \<and>
   getScoreColor (Finite 49) = ''bg-red-500'' \<and> getScoreTextColor (Finite 49) = ''text-red-900''"
  using score_banding [of 81] score_banding [of 80] score_banding [of 50] score_banding [of 49]
  by simp

text \<open>
  Outside the finite scores the comparisons still decide: \<open>Infinity\<close> is good,
  \<open>-Infinity\<close> is poor, and \<open>NaN\<close>, for which both comparisons are false, falls through to
  poor.
\<close>

lemma score_banding_not_finite:
  "getScoreColor Infinity = ''bg-green-500'' \<and> getScoreTextColor Infinity = ''text-green-900'' \<and>
   getScoreColor NegInfinity = ''bg-red-500'' \<and> getScoreTextColor NegInfinity = ''text-red-900'' \<and>
   getScoreColor NaN = ''bg-red-500'' \<and> getScoreTextColor NaN = ''text-red-900''"
  by (simp add: getScoreColor_def getScoreTextColor_def)

section \<open>Risk badge, status icon and container classes\<close>

text \<open>
  Claim C7. The risk-badge and the status-icon mappings are defined on every string. Each
  of "safe", "warning", "danger" has a badge category of its own, returned for that
  string only, and exactly the other strings get the neutral slate category; each of
  "VERIFIED", "UNKNOWN", "CONTRADICTION" has an icon of its own, returned for that string
  only, and exactly the other strings get no icon (\<open>null\<close>).
\<close>

theorem taxonomy_mappings_total:
  "(getRiskBadgeColor r = ''bg-green-100 text-green-800 border-green-200'' \<longleftrightarrow> r = ''safe'') \<and>
   (getRiskBadgeColor r = ''bg-yellow-100 text-yellow-800 border-yellow-200'' \<longleftrightarrow>
      r = ''warning'') \<and>
   (getRiskBadgeColor r = ''bg-red-100 text-red-800 border-red-200'' \<longleftrightarrow> r = ''danger'') \<and>
   (getRiskBadgeColor r = ''bg-slate-100 text-slate-800 border-slate-200'' \<longleftrightarrow>
      r \<noteq> ''safe'' \<and> r \<noteq> ''warning'' \<and> r \<noteq> ''danger'') \<and>
   (getStatusIcon s = Some (CheckCircle, ''h-5 w-5 text-green-600'') \<longleftrightarrow> s = ''VERIFIED'') \<and>
   (getStatusIcon s = Some (AlertTriangle, ''h-5 w-5 text-yellow-600'') \<longleftrightarrow> s = ''UNKNOWN'') \<and>
   (getStatusIcon s = Some (XCircle, ''h-5 w-5 text-red-600'') \<longleftrightarrow> s = ''CONTRADICTION'') \<and>
   (getStatusIcon s = None \<longleftrightarrow>
      s \<noteq> ''VERIFIED'' \<and> s \<noteq> ''UNKNOWN'' \<and> s \<noteq> ''CONTRADICTION'')"
  by (simp add: getRiskBadgeColor_def getStatusIcon_def)

theorem taxonomy_mappings_total_witness:
  "getRiskBadgeColor ''safe'' = ''bg-green-100 text-green-800 border-green-200'' \<and>
   getStatusIcon ''VERIFIED'' = Some (CheckCircle, ''h-5 w-5 text-green-600'') \<and>
   getRiskBadgeColor ''warning'' = ''bg-yellow-100 text-yellow-800 border-yellow-200'' \<and>
   getStatusIcon ''UNKNOWN'' = Some (AlertTriangle, ''h-5 w-5 text-yellow-600'') \<and>
   getRiskBadgeColor ''danger'' = ''bg-red-100 text-red-800 border-red-200'' \<and>
   getStatusIcon ''CONTRADICTION'' = Some (XCircle, ''h-5 w-5 text-red-600'') \<and>
   getRiskBadgeColor ''critical'' = ''bg-slate-100 text-slate-800 border-slate-200'' \<and>
   getStatusIcon ''verified'' = None"
  using taxonomy_mappings_total [of "''safe''" "''VERIFIED''"]
    taxonomy_mappings_total [of "''warning''" "''UNKNOWN''"]
    taxonomy_mappings_total [of "''danger''" "''CONTRADICTION''"]
    taxonomy_mappings_total [of "''critical''" "''verified''"]
  by simp

text \<open>
  Claim C10. The container of an analysed sentence is classified from \<open>risk_level\<close> with
  a danger default: "safe" alone gets the safe (green) container, "warning" alone the
  warning (yellow) one, and every other string, "danger" included, gets the danger (red)
  one. So an unrecognised \<open>risk_level\<close> has the danger container while its badge is the
  neutral one.
\<close>

theorem container_class_defaults_to_danger:
  "(analysis_container_class r = ''bg-green-50 border-green-200'' \<longleftrightarrow> r = ''safe'') \<and>
   (analysis_container_class r = ''bg-yellow-50 border-yellow-200'' \<longleftrightarrow> r = ''warning'') \<and>
   (analysis_container_class r = ''bg-red-50 border-red-200'' \<longleftrightarrow>
      r \<noteq> ''safe'' \<and> r \<noteq> ''warning'') \<and>
   analysis_container_class ''danger'' = ''bg-red-50 border-red-200'' \<and>
   (r \<noteq> ''safe'' \<and> r \<noteq> ''warning'' \<and> r \<noteq> ''danger'' \<longrightarrow>
      analysis_container_class r = ''bg-red-50 border-red-200'' \<and>
      getRiskBadgeColor r = ''bg-slate-100 text-slate-800 border-slate-200'')"
  by (simp add: analysis_container_class_def getRiskBadgeColor_def)

theorem container_class_defaults_to_danger_witness:
  "analysis_container_class ''critical'' = ''bg-red-50 border-red-200'' \<and>
   getRiskBadgeColor ''critical'' = ''bg-slate-100 text-slate-800 border-slate-200'' \<and>
   analysis_container_class ''danger'' = ''bg-red-50 border-red-200'' \<and>
   analysis_container_class ''safe'' = ''bg-green-50 border-green-200'' \<and>
   analysis_container_class ''warning'' = ''bg-yellow-50 border-yellow-200''"
  using container_class_defaults_to_danger [of "''critical''"]
    container_class_defaults_to_danger [of "''safe''"]
    container_class_defaults_to_danger [of "''warning''"]
  by simp

section \<open>Generation: what a submit stores\<close>

text \<open>The four fields of the fallback result.\<close>

lemma missing_info_result_fields:
  "own_property (missing_info_result w) ''answer'' = JStr [] \<and>
   own_property (missing_info_result w) ''status'' = JStr ''missing_info'' \<and>
   own_property (missing_info_result w) ''citations'' = JArr [] \<and>
   own_property (missing_info_result w) ''warning'' = JStr w"
  by (simp add: missing_info_result_def own_property_def)

lemma or_else_nonempty: "b \<noteq> [] \<Longrightarrow> or_else a b \<noteq> []"
  by (simp add: or_else_def split: option.splits)

text \<open>A submit with a non-blank question issues one call and then settles.\<close>

lemma handleGenerate_nonblank:
  "trim (question st) \<noteq> [] \<Longrightarrow>
   handleGenerate out st =
     (handleGenerate_settle out (st\<lparr>loading := True, response := JNull\<rparr>),
      [CallAIAgent (question st) BID_GENERATOR_AGENT_ID])"
  by (simp add: handleGenerate_def handleGenerate_start_def)

text \<open>Under the guard \<open>result.success && result.response\<close> the read of \<open>.result\<close> never throws.\<close>

lemma read_result_truthy: "truthy v \<Longrightarrow> read_result v = Inr (own_property v ''result'')"
  by (cases v) (simp_all add: read_result_def)

lemma settle_success:
  "result_success r \<Longrightarrow> truthy (result_response r) \<Longrightarrow>
   handleGenerate_settle (Resolved r) st =
     st\<lparr>response := own_property (result_response r) ''result'', loading := False\<rparr>"
  by (simp add: handleGenerate_settle_def generate_try_def read_result_truthy)

lemma settle_no_payload:
  "\<not> (result_success r \<and> truthy (result_response r)) \<Longrightarrow>
   handleGenerate_settle (Resolved r) st =
     st\<lparr>response := missing_info_result (or_else (result_error r) ''Failed to generate answer''),
        loading := False\<rparr>"
  by (auto simp add: handleGenerate_settle_def generate_try_def)

lemma settle_rejected:
  "handleGenerate_settle (Rejected e) st =
     st\<lparr>response := missing_info_result
                        (case e of Error_instance m \<Rightarrow> m | Non_Error \<Rightarrow> ''Network error''),
        loading := False\<rparr>"
  by (simp add: handleGenerate_settle_def generate_try_def generate_catch_def)

subsection \<open>Transport failure\<close>

text \<open>
  What every failed call stores, field by field. With the success flag false the \<open>else\<close>
  branch takes the transport's error message when that is a non-empty string and the
  default otherwise, so its warning is never empty. After a throw the \<open>catch\<close> clause
  takes the message of the thrown \<open>Error\<close> as it is, or "Network error" for any other
  thrown value.
\<close>

lemma generation_failure_stored:
  assumes "trim (question st) \<noteq> []" and "transport_failed out"
  shows "handleGenerate out st =
           (st\<lparr>loading := False,
               response :=
                 JObj [(''answer'', JStr []), (''status'', JStr ''missing_info''),
                       (''citations'', JArr []),
                       (''warning'', JStr
                          (case out of
                             Resolved r \<Rightarrow> or_else (result_error r) ''Failed to generate answer''
                           | Rejected (Error_instance m) \<Rightarrow> m
                           | Rejected Non_Error \<Rightarrow> ''Network error''))]\<rparr>,
            [CallAIAgent (question st) BID_GENERATOR_AGENT_ID])"
proof (cases out)
  case (Resolved r)
  with assms(2) have "\<not> (result_success r \<and> truthy (result_response r))"
    by (simp add: transport_failed_def)
  with assms(1) Resolved show ?thesis
    by (simp add: handleGenerate_nonblank settle_no_payload missing_info_result_def)
next
  case (Rejected e)
  with assms(1) show ?thesis
    by (cases e) (simp_all add: handleGenerate_nonblank settle_rejected missing_info_result_def)
qed

lemma generation_flag_false_warning_nonempty:
  "or_else (result_error r) ''Failed to generate answer'' \<noteq> []"
  by (simp add: or_else_nonempty)


subsection \<open>Success flag without a payload\<close>

text \<open>
  The payloads that count as absent are the falsy ones. An object or an array is truthy
  even when it is empty, and is a payload in the sense of the next subsection.
\<close>

lemma truthy_payloads:
  "\<not> truthy JUndefined \<and> \<not> truthy JNull \<and> \<not> truthy (JStr []) \<and>
   truthy (JObj []) \<and> truthy (JArr [])"
  by simp

text \<open>
  Claim C9. When the transport reports success but the payload is absent (any falsy value:
  \<open>undefined\<close>, \<open>null\<close>, the empty string), the controller does exactly what it does when
  the success flag is false: it stores the fallback result with status "missing_info",
  empty answer and citations, and the transport's error message, or "Failed to generate
  answer" when there is none, as the non-empty warning.
\<close>

theorem generation_success_without_payload:
  assumes "trim (question st) \<noteq> []"
    and "result_success r" and "\<not> truthy (result_response r)"
  shows "handleGenerate (Resolved r) st =
           (st\<lparr>loading := False,
               response :=
                 JObj [(''answer'', JStr []), (''status'', JStr ''missing_info''),
                       (''citations'', JArr []),
                       (''warning'',
                        JStr (or_else (result_error r) ''Failed to generate answer''))]\<rparr>,
            [CallAIAgent (question st) BID_GENERATOR_AGENT_ID]) \<and>
         handleGenerate (Resolved r) st =
           handleGenerate (Resolved (r\<lparr>result_success := False\<rparr>)) st \<and>
         or_else (result_error r) ''Failed to generate answer'' \<noteq> [] \<and>
         (case result_error r of
            Some m \<Rightarrow> m = [] \<or> or_else (result_error r) ''Failed to generate answer'' = m
          | None \<Rightarrow> or_else (result_error r) ''Failed to generate answer'' =
                     ''Failed to generate answer'')"
  using assms
  by (simp add: handleGenerate_nonblank settle_no_payload or_else_nonempty
      missing_info_result_def or_else_def split: option.splits)

theorem generation_success_without_payload_witness:
  "handleGenerate
     (Resolved \<lparr>result_success = True, result_response = JUndefined, result_error = None\<rparr>)
     \<lparr>loading = False, response = JNull,
      question = ''What encryption do you use?'', copied = False\<rparr> =
   (\<lparr>loading = False,
     response = JObj [(''answer'', JStr []), (''status'', JStr ''missing_info''),
                      (''citations'', JArr []),
                      (''warning'', JStr ''Failed to generate answer'')],
     question = ''What encryption do you use?'', copied = False\<rparr>,
    [CallAIAgent ''What encryption do you use?'' BID_GENERATOR_AGENT_ID]) \<and>
   handleGenerate
     (Resolved \<lparr>result_success = True, result_response = JNull,
        result_error = Some ''Empty response''\<rparr>)
     \<lparr>loading = False, response = JNull,
      question = ''What encryption do you use?'', copied = False\<rparr> =
   (\<lparr>loading = False,
     response = JObj [(''answer'', JStr []), (''status'', JStr ''missing_info''),
                      (''citations'', JArr []), (''warning'', JStr ''Empty response'')],
     question = ''What encryption do you use?'', copied = False\<rparr>,
    [CallAIAgent ''What encryption do you use?'' BID_GENERATOR_AGENT_ID]) \<and>
   handleGenerate
     (Resolved \<lparr>result_success = True, result_response = JStr [], result_error = None\<rparr>)
     \<lparr>loading = False, response = JNull,
      question = ''What encryption do you use?'', copied = False\<rparr> =
   (\<lparr>loading = False,
     response = JObj [(''answer'', JStr []), (''status'', JStr ''missing_info''),
                      (''citations'', JArr []),
                      (''warning'', JStr ''Failed to generate answer'')],
     question = ''What encryption do you use?'', copied = False\<rparr>,
    [CallAIAgent ''What encryption do you use?'' BID_GENERATOR_AGENT_ID])"
proof -
  let ?st = "\<lparr>loading = False, response = JNull,
              question = ''What encryption do you use?'', copied = False\<rparr>"
  let ?u = "\<lparr>result_success = True, result_response = JUndefined, result_error = None\<rparr>"
  let ?n = "\<lparr>result_success = True, result_response = JNull,
             result_error = Some ''Empty response''\<rparr>"
  let ?e = "\<lparr>result_success = True, result_response = JStr [], result_error = None\<rparr>"
  have q: "trim (question ?st) \<noteq> []"
    by (simp add: trim_def is_white_space_def)
  have u: "result_success ?u" "\<not> truthy (result_response ?u)"
    and n: "result_success ?n" "\<not> truthy (result_response ?n)"
    and e: "result_success ?e" "\<not> truthy (result_response ?e)"
    by simp_all
  show ?thesis
    using generation_success_without_payload [OF q u]
      generation_success_without_payload [OF q n]
      generation_success_without_payload [OF q e]
    by (simp add: or_else_def)
qed

subsection \<open>Success with a payload\<close>

text \<open>
  Claim C3 says that a payload failing the required-field checks is replaced by the
  fallback result. The page has no such check: the payload \<open>{result: {answer: 42}}\<close> fails
  them, and its \<open>result\<close> is stored as it came.
\<close>

theorem generation_unchecked_payload_counterexample:
  "result_success \<lparr>result_success = True,
      result_response = JObj [(''result'', JObj [(''answer'', JNum (Finite 42))])],
      result_error = None\<rparr> \<and>
   \<not> spec_generation_fields_ok (JObj [(''result'', JObj [(''answer'', JNum (Finite 42))])]) \<and>
   response (fst (handleGenerate
     (Resolved \<lparr>result_success = True,
        result_response = JObj [(''result'', JObj [(''answer'', JNum (Finite 42))])],
        result_error = None\<rparr>)
     \<lparr>loading = False, response = JNull,
      question = ''What encryption do you use?'', copied = False\<rparr>)) =
     JObj [(''answer'', JNum (Finite 42))] \<and>
   JObj [(''answer'', JNum (Finite 42))] \<noteq> missing_info_result ''Failed to generate answer''"
  by (simp add: spec_generation_fields_ok_def own_property_def trim_def is_white_space_def
      handleGenerate_def handleGenerate_start_def handleGenerate_settle_def generate_try_def
      read_result_def missing_info_result_def)

text \<open>
  Claim C3, amended. For every submit of a non-blank question where the transport call
  succeeds with a truthy payload, the controller stores the payload's \<open>result\<close> property
  as it is (\<open>undefined\<close> when the payload has none), with no required-field check, and
  sets loading to false; a malformed payload is not replaced by the fallback result.
\<close>

theorem generation_success_stores_payload_unchecked:
  assumes "trim (question st) \<noteq> []"
    and "result_success r" and "truthy (result_response r)"
  shows "handleGenerate (Resolved r) st =
           (st\<lparr>loading := False, response := own_property (result_response r) ''result''\<rparr>,
            [CallAIAgent (question st) BID_GENERATOR_AGENT_ID])"
  using assms by (simp add: handleGenerate_nonblank settle_success)

theorem generation_success_stores_payload_unchecked_witness:
  "handleGenerate
     (Resolved \<lparr>result_success = True,
        result_response = JObj [(''status'', JStr ''success''),
          (''result'', JObj [(''answer'', JStr ''AES-256 at rest, TLS 1.3 in transit.''),
             (''status'', JStr ''success''), (''citations'', JArr [])])],
        result_error = None\<rparr>)
     \<lparr>loading = False, response = JNull,
      question = ''What encryption do you use?'', copied = False\<rparr> =
   (\<lparr>loading = False,
     response = JObj [(''answer'', JStr ''AES-256 at rest, TLS 1.3 in transit.''),
       (''status'', JStr ''success''), (''citations'', JArr [])],
     question = ''What encryption do you use?'', copied = False\<rparr>,
    [CallAIAgent ''What encryption do you use?'' BID_GENERATOR_AGENT_ID]) \<and>
   handleGenerate
     (Resolved \<lparr>result_success = True, result_response = JObj [(''status'', JStr ''error'')],
        result_error = None\<rparr>)
     \<lparr>loading = False, response = JNull,
      question = ''What encryption do you use?'', copied = False\<rparr> =
   (\<lparr>loading = False, response = JUndefined,
     question = ''What encryption do you use?'', copied = False\<rparr>,
    [CallAIAgent ''What encryption do you use?'' BID_GENERATOR_AGENT_ID])"
proof -
  let ?st = "\<lparr>loading = False, response = JNull,
              question = ''What encryption do you use?'', copied = False\<rparr>"
  let ?good = "\<lparr>result_success = True,
        result_response = JObj [(''status'', JStr ''success''),
          (''result'', JObj [(''answer'', JStr ''AES-256 at rest, TLS 1.3 in transit.''),
             (''status'', JStr ''success''), (''citations'', JArr [])])],
        result_error = None\<rparr>"
  let ?bad = "\<lparr>result_success = True, result_response = JObj [(''status'', JStr ''error'')],
        result_error = None\<rparr>"
  have q: "trim (question ?st) \<noteq> []"
    by (simp add: trim_def is_white_space_def)
  have g: "result_success ?good" "truthy (result_response ?good)"
    and b: "result_success ?bad" "truthy (result_response ?bad)"
    by simp_all
  show ?thesis
    using generation_success_stores_payload_unchecked [OF q g]
      generation_success_stores_payload_unchecked [OF q b]
    by (simp add: own_property_def)
qed

section \<open>Generation: a submit while a request is in flight\<close>

text \<open>
  Claim C4 says that \<open>handleGenerate\<close> itself does nothing while a request is in flight.
  It has no such guard: started from the state a first submit leaves (loading true), it
  issues a second call.
\<close>

theorem generate_in_flight_second_call_counterexample:
  "handleGenerate_start
     \<lparr>loading = False, response = JNull,
      question = ''What encryption do you use?'', copied = False\<rparr> =
   Awaiting \<lparr>loading = True, response = JNull,
              question = ''What encryption do you use?'', copied = False\<rparr>
            (CallAIAgent ''What encryption do you use?'' BID_GENERATOR_AGENT_ID) \<and>
   handleGenerate_start
     \<lparr>loading = True, response = JNull,
      question = ''What encryption do you use?'', copied = False\<rparr> =
   Awaiting \<lparr>loading = True, response = JNull,
              question = ''What encryption do you use?'', copied = False\<rparr>
            (CallAIAgent ''What encryption do you use?'' BID_GENERATOR_AGENT_ID)"
  by (simp add: handleGenerate_start_def trim_def is_white_space_def)

text \<open>
  Claim C4, amended. While a generation request is in flight (loading true) the submit
  button is disabled, and the disabled button is the only guard: \<open>handleGenerate\<close> checks
  the trimmed question alone, so when it is invoked while loading with a non-blank question
  it issues another transport call, keeps loading true and sets the stored response to
  \<open>null\<close>; with a blank question it returns at once.
\<close>

theorem generate_in_flight_guard:
  assumes "loading st"
  shows "generate_disabled st \<and>
         (trim (question st) \<noteq> [] \<longrightarrow>
            handleGenerate_start st =
              Awaiting (st\<lparr>loading := True, response := JNull\<rparr>)
                       (CallAIAgent (question st) BID_GENERATOR_AGENT_ID)) \<and>
         (trim (question st) = [] \<longrightarrow> handleGenerate_start st = Returned st)"
  using assms by (simp add: generate_disabled_def handleGenerate_start_def)

theorem generate_in_flight_guard_witness:
  "generate_disabled \<lparr>loading = True, response = JNull,
      question = ''What encryption do you use?'', copied = False\<rparr> \<and>
   handleGenerate_start \<lparr>loading = True, response = JNull,
      question = ''What encryption do you use?'', copied = False\<rparr> =
   Awaiting \<lparr>loading = True, response = JNull,
              question = ''What encryption do you use?'', copied = False\<rparr>
            (CallAIAgent ''What encryption do you use?'' BID_GENERATOR_AGENT_ID)"
proof -
  let ?st = "\<lparr>loading = True, response = JNull,
              question = ''What encryption do you use?'', copied = False\<rparr>"
  have l: "loading ?st" by simp
  have q: "trim (question ?st) \<noteq> []"
    by (simp add: trim_def is_white_space_def)
  from generate_in_flight_guard [OF l] q show ?thesis by simp
qed

section \<open>Audit: a failed transport call\<close>

lemma handleAudit_nonblank:
  "trim (draft st) \<noteq> [] \<Longrightarrow>
   handleAudit out st =
     (let (st'', logs) = handleAudit_settle out (st\<lparr>loading := True, response := JNull\<rparr>)
      in (st'', CallAIAgent (draft st) COMPLIANCE_AUDITOR_AGENT_ID # logs))"
  by (simp add: handleAudit_def handleAudit_start_def)

lemma audit_settle_no_payload:
  "\<not> (result_success r \<and> truthy (result_response r)) \<Longrightarrow>
   handleAudit_settle (Resolved r) st =
     (st\<lparr>loading := False\<rparr>,
      [ConsoleError ''Audit failed:'' (Logged_message (result_error r))])"
  by (auto simp add: handleAudit_settle_def audit_try_def)

lemma audit_settle_rejected:
  "handleAudit_settle (Rejected e) st =
     (st\<lparr>loading := False\<rparr>, [ConsoleError ''Audit error:'' (Logged_thrown e)])"
  by (simp add: handleAudit_settle_def audit_try_def)

lemma audit_settle_success:
  "result_success r \<Longrightarrow> truthy (result_response r) \<Longrightarrow>
   handleAudit_settle (Resolved r) st =
     (st\<lparr>response := own_property (result_response r) ''result'', loading := False\<rparr>, [])"
  by (simp add: handleAudit_settle_def audit_try_def read_result_truthy)

text \<open>
  Claim C5 says that after a failed audit the stored result is unchanged from before the
  submit. The submit itself calls \<open>setResponse(null)\<close> before the request, so a failed
  resubmit after a successful audit erases the result that was stored.
\<close>

theorem audit_failure_erases_prior_result_counterexample:
  "transport_failed (Resolved \<lparr>result_success = False, result_response = JUndefined,
      result_error = Some ''Agent timed out''\<rparr>) \<and>
   trim ''Our system is 100% unhackable.'' \<noteq> [] \<and>
   response (fst (handleAudit
     (Resolved \<lparr>result_success = False, result_response = JUndefined,
        result_error = Some ''Agent timed out''\<rparr>)
     \<lparr>loading = False,
      response = JObj [(''compliance_score'', JNum (Finite 20)),
                       (''total_sentences'', JNum (Finite 1)), (''analysis'', JArr []),
                       (''summary'', JStr ''One contradiction.'')],
      draft = ''Our system is 100% unhackable.''\<rparr>)) = JNull \<and>
   JNull \<noteq> JObj [(''compliance_score'', JNum (Finite 20)),
                   (''total_sentences'', JNum (Finite 1)), (''analysis'', JArr []),
                   (''summary'', JStr ''One contradiction.'')]"
  by (simp add: transport_failed_def trim_def is_white_space_def handleAudit_def
      handleAudit_start_def handleAudit_settle_def audit_try_def)

text \<open>
  Claim C5, amended. For every audit submit (non-blank draft) whose transport call fails or
  throws, the controller ends with no stored result: the stored result is \<open>null\<close> and
  loading is false, whatever was stored before, because the submit clears the stored
  result before the request and the failure branches store nothing. Nothing else of the
  state changes, so a controller that had no result before the submit is left as it was.
  The only effects are the one transport call and one \<open>console.error\<close> naming the failure.
  The Generation controller, given the same outcome, stores a result that is not \<open>null\<close>.
\<close>

theorem audit_failure_stores_nothing:
  assumes "trim (draft st) \<noteq> []" and "transport_failed out"
  shows "handleAudit out st =
           (st\<lparr>loading := False, response := JNull\<rparr>,
            [CallAIAgent (draft st) COMPLIANCE_AUDITOR_AGENT_ID,
             (case out of
                Resolved r \<Rightarrow> ConsoleError ''Audit failed:'' (Logged_message (result_error r))
              | Rejected e \<Rightarrow> ConsoleError ''Audit error:'' (Logged_thrown e))]) \<and>
         response (fst (handleAudit out st)) = JNull \<and>
         (response st = JNull \<and> \<not> loading st \<longrightarrow> fst (handleAudit out st) = st) \<and>
         (trim (question g) \<noteq> [] \<longrightarrow> response (fst (handleGenerate out g)) \<noteq> JNull)"
proof (cases out)
  case (Resolved r)
  with assms(2) have np: "\<not> (result_success r \<and> truthy (result_response r))"
    by (simp add: transport_failed_def)
  from assms(1) Resolved np show ?thesis
    by (simp add: handleAudit_nonblank audit_settle_no_payload handleGenerate_nonblank
        settle_no_payload missing_info_result_def)
next
  case (Rejected e)
  with assms(1) show ?thesis
    by (simp add: handleAudit_nonblank audit_settle_rejected handleGenerate_nonblank
        settle_rejected missing_info_result_def)
qed

theorem audit_failure_stores_nothing_witness:
  "handleAudit
     (Resolved \<lparr>result_success = False, result_response = JUndefined,
        result_error = Some ''Agent timed out''\<rparr>)
     \<lparr>loading = False, response = JStr ''previous audit'',
      draft = ''Our system is 100% unhackable.''\<rparr> =
   (\<lparr>loading = False, response = JNull, draft = ''Our system is 100% unhackable.''\<rparr>,
    [CallAIAgent ''Our system is 100% unhackable.'' COMPLIANCE_AUDITOR_AGENT_ID,
     ConsoleError ''Audit failed:'' (Logged_message (Some ''Agent timed out''))]) \<and>
   handleAudit (Rejected (Error_instance ''fetch failed''))
     \<lparr>loading = False, response = JNull, draft = ''Our system is 100% unhackable.''\<rparr> =
   (\<lparr>loading = False, response = JNull, draft = ''Our system is 100% unhackable.''\<rparr>,
    [CallAIAgent ''Our system is 100% unhackable.'' COMPLIANCE_AUDITOR_AGENT_ID,
     ConsoleError ''Audit error:'' (Logged_thrown (Error_instance ''fetch failed''))])"
proof -
  let ?a = "\<lparr>loading = False, response = JStr ''previous audit'',
             draft = ''Our system is 100% unhackable.''\<rparr>"
  let ?b = "\<lparr>loading = False, response = JNull, draft = ''Our system is 100% unhackable.''\<rparr>"
  have qa: "trim (draft ?a) \<noteq> []" and qb: "trim (draft ?b) \<noteq> []"
    by (simp_all add: trim_def is_white_space_def)
  have f1: "transport_failed (Resolved \<lparr>result_success = False, result_response = JUndefined,
                                        result_error = Some ''Agent timed out''\<rparr>)"
    and f2: "transport_failed (Rejected (Error_instance ''fetch failed''))"
    by (simp_all add: transport_failed_def)
  show ?thesis
    using audit_failure_stores_nothing [OF qa f1] audit_failure_stores_nothing [OF qb f2]
    by simp
qed

section \<open>Blank input\<close>

text \<open>
  Claim C6. When the question (the draft) is empty after trimming, the Generation (the
  Audit) submit returns before doing anything: no transport call, no other effect, and the
  state, with its loading flag and its stored result, is the state before.
\<close>

theorem blank_submit_is_noop:
  "(trim (question g) = [] \<longrightarrow>
      handleGenerate_start g = Returned g \<and> handleGenerate out g = (g, [])) \<and>
   (trim (draft a) = [] \<longrightarrow>
      handleAudit_start a = Returned a \<and> handleAudit out a = (a, []))"
  by (simp add: handleGenerate_def handleGenerate_start_def handleAudit_def
      handleAudit_start_def)

theorem blank_submit_is_noop_witness:
  "handleGenerate (Rejected Non_Error)
     \<lparr>loading = False, response = JStr ''previous answer'',
      question = [CHR '' '', CHR 0x09, CHR 0x0A, CHR '' ''], copied = False\<rparr> =
   (\<lparr>loading = False, response = JStr ''previous answer'',
     question = [CHR '' '', CHR 0x09, CHR 0x0A, CHR '' ''], copied = False\<rparr>, []) \<and>
   handleAudit (Rejected Non_Error)
     \<lparr>loading = False, response = JStr ''previous audit'', draft = []\<rparr> =
   (\<lparr>loading = False, response = JStr ''previous audit'', draft = []\<rparr>, [])"
proof -
  let ?g = "\<lparr>loading = False, response = JStr ''previous answer'',
             question = [CHR '' '', CHR 0x09, CHR 0x0A, CHR '' ''], copied = False\<rparr>"
  let ?a = "\<lparr>loading = False, response = JStr ''previous audit'', draft = []\<rparr>"
  have bg: "trim (question ?g) = []" and ba: "trim (draft ?a) = []"
    by (simp_all add: trim_def is_white_space_def)
  from blank_submit_is_noop [of ?g "Rejected Non_Error" ?a] bg ba show ?thesis
    by simp
qed

section \<open>Vault: saving blank content\<close>

text \<open>
  Claim C8. When the vault content is empty after trimming, \<open>handleSave\<close> only sets the
  message "Please enter content to save": the saving flag is not touched, no timer is
  started, and the content is unchanged.
\<close>

theorem save_blank_content:
  assumes "trim (vaultContent st) = []"
  shows "handleSave st = (st\<lparr>saveMessage := ''Please enter content to save''\<rparr>, []) \<and>
         handleSave_start st = Returned (st\<lparr>saveMessage := ''Please enter content to save''\<rparr>) \<and>
         saving (fst (handleSave st)) = saving st"
  using assms by (simp add: handleSave_def handleSave_start_def)

theorem save_blank_content_witness:
  "handleSave \<lparr>vaultContent = [CHR '' '', CHR 0x0A], saving = False, saveMessage = []\<rparr> =
   (\<lparr>vaultContent = [CHR '' '', CHR 0x0A], saving = False,
     saveMessage = ''Please enter content to save''\<rparr>, [])"
proof -
  let ?st = "\<lparr>vaultContent = [CHR '' '', CHR 0x0A], saving = False, saveMessage = []\<rparr>"
  have b: "trim (vaultContent ?st) = []"
    by (simp add: trim_def is_white_space_def)
  from save_blank_content [OF b] show ?thesis by simp
qed

text \<open>With content to save, the handler does enter the saving state and starts the delay.\<close>

lemma save_content_goes_through_saving:
  "trim (vaultContent st) \<noteq> [] \<Longrightarrow>
   handleSave_start st = Awaiting (st\<lparr>saving := True, saveMessage := []\<rparr>) (SetTimeout 1000)"
  by (simp add: handleSave_start_def)

end
